theory Spec2Isabelle
  imports Main
begin

section \<open>Request values\<close>

text \<open>
  \<^verbatim>\<open>express.json()\<close> hands every handler a parsed JSON body. The fields \<^verbatim>\<open>status\<close> and
  \<^verbatim>\<open>progress\<close> are inspected dynamically by the handlers (\<^verbatim>\<open>includes\<close>, \<^verbatim>\<open>parseInt\<close>,
  \<^verbatim>\<open>??\<close>, \<^verbatim>\<open>||\<close>) and the date fields go through \<^verbatim>\<open>new Date\<close>, so they are kept as JSON
  values. Strings are sequences of code units below 256.

  A number is the value \<^verbatim>\<open>JSON.parse\<close> produced, a double written in decimal:
  \<open>Number neg m e\<close> is \<open>m * 10^e\<close>, negated when \<open>neg\<close> holds; \<open>Infinity\<close> is what a
  literal beyond the range of a double becomes.
\<close>

datatype number =
    Number (negative: bool) (mantissa: nat) (exponent: int)
  | Infinity bool

datatype json =
    JNull
  | JBool bool
  | JNum number
  | JStr string
  | JArr "json list"
  | JObj "(string \<times> json) list"

text \<open>JavaScript truthiness, as used by \<^verbatim>\<open>status || 'todo'\<close>.\<close>

fun truthy :: "json \<Rightarrow> bool" where
  "truthy JNull = False"
| "truthy (JBool b) = b"
| "truthy (JNum (Number neg m e)) = (m \<noteq> 0)"
| "truthy (JNum (Infinity neg)) = True"
| "truthy (JStr s) = (s \<noteq> [])"
| "truthy (JArr xs) = True"
| "truthy (JObj kvs) = True"

fun decimal :: "nat \<Rightarrow> string" where
  "decimal n =
     (if n < 10 then [''0123456789'' ! n]
      else decimal (n div 10) @ [''0123456789'' ! (n mod 10)])"

declare decimal.simps [simp del]

fun join_comma :: "string list \<Rightarrow> string" where
  "join_comma [] = []"
| "join_comma [x] = x"
| "join_comma (x # y # ys) = x @ '','' @ join_comma (y # ys)"

text \<open>The digits of a number without its trailing zeros, which go into the exponent.\<close>

function stripZeros :: "nat \<Rightarrow> int \<Rightarrow> nat \<times> int" where
  "stripZeros m e =
     (if m \<noteq> 0 \<and> m mod 10 = 0 then stripZeros (m div 10) (e + 1) else (m, e))"
  by pat_completeness auto
termination
  by (relation "measure (\<lambda>(m, e). m)") auto

declare stripZeros.simps [simp del]

text \<open>
  \<^verbatim>\<open>Number::toString\<close> of the language standard. With \<open>k\<close> the number of digits left
  after the trailing zeros are gone and \<open>n\<close> the position of the decimal point (\<open>k\<close> plus
  the exponent): the digits and \<open>n - k\<close> zeros
  when \<open>k \<le> n \<le> 21\<close>; the digits with a point after the first \<open>n\<close> when \<open>0 < n \<le> 21\<close>;
  \<^verbatim>\<open>0.\<close>, \<open>-n\<close> zeros and the digits when \<open>-6 < n \<le> 0\<close>; exponent form otherwise, so that
  \<open>10^21\<close> prints as \<^verbatim>\<open>1e+21\<close> and \<open>5 * 10^-7\<close> as \<^verbatim>\<open>5e-7\<close>. Zero prints as \<^verbatim>\<open>0\<close>.
\<close>

definition numberToString :: "number \<Rightarrow> string" where
  "numberToString x =
     (case x of
        Infinity neg \<Rightarrow> (if neg then ''-Infinity'' else ''Infinity'')
      | Number neg m0 e0 \<Rightarrow>
          if m0 = 0 then ''0''
          else
            (if neg then ''-'' else []) @
            (let (m, e) = stripZeros m0 e0;
                 ds = decimal m; k = int (length ds); n = k + e
             in if k \<le> n \<and> n \<le> 21 then ds @ replicate (nat (n - k)) CHR ''0''
                else if 0 < n \<and> n \<le> 21 then take (nat n) ds @ ''.'' @ drop (nat n) ds
                else if - 6 < n \<and> n \<le> 0 then ''0.'' @ replicate (nat (- n)) CHR ''0'' @ ds
                else
                  (let ex = (if n - 1 < 0 then ''-'' else ''+'') @ decimal (nat \<bar>n - 1\<bar>)
                   in if k = 1 then ds @ ''e'' @ ex
                      else take 1 ds @ ''.'' @ drop 1 ds @ ''e'' @ ex)))"

text \<open>The whole number \<open>i\<close> as a JSON value.\<close>

definition jsInt :: "int \<Rightarrow> json" where
  "jsInt i = JNum (Number (i < 0) (nat \<bar>i\<bar>) 0)"

text \<open>
  \<^verbatim>\<open>ToString\<close>, the conversion \<^verbatim>\<open>parseInt\<close> applies to its argument first. An array prints its
  elements separated by commas, \<^verbatim>\<open>null\<close> elements as the empty string.
\<close>

fun toString :: "json \<Rightarrow> string" where
  "toString JNull = ''null''"
| "toString (JBool b) = (if b then ''true'' else ''false'')"
| "toString (JNum x) = numberToString x"
| "toString (JStr s) = s"
| "toString (JArr xs) =
     join_comma (map (\<lambda>x. case x of JNull \<Rightarrow> [] | _ \<Rightarrow> toString x) xs)"
| "toString (JObj kvs) = ''[object Object]''"

definition isWhiteSpace :: "char \<Rightarrow> bool" where
  "isWhiteSpace c = ((of_char c :: nat) \<in> {9, 10, 11, 12, 13, 32, 160})"

definition digitValue :: "char \<Rightarrow> int option" where
  "digitValue c =
     (let n = (of_char c :: nat)
      in if 48 \<le> n \<and> n \<le> 57 then Some (int n - 48) else None)"

definition isDigit :: "char \<Rightarrow> bool" where
  "isDigit c = (digitValue c \<noteq> None)"

definition digitsValue :: "string \<Rightarrow> int" where
  "digitsValue ds = foldl (\<lambda>acc c. 10 * acc + (case digitValue c of Some d \<Rightarrow> d | None \<Rightarrow> 0)) 0 ds"

text \<open>
  \<^verbatim>\<open>parseInt(string, 10)\<close>: skip leading white space, read an optional sign, then the longest
  run of decimal digits; \<open>None\<close> is \<^verbatim>\<open>NaN\<close> (no digit found).
\<close>

definition parseIntStr :: "string \<Rightarrow> int option" where
  "parseIntStr s =
     (let t = dropWhile isWhiteSpace s;
          neg = (case t of c # _ \<Rightarrow> c = CHR ''-'' | [] \<Rightarrow> False);
          u = (case t of c # r \<Rightarrow> if c = CHR ''-'' \<or> c = CHR ''+'' then r else t | [] \<Rightarrow> t);
          z = takeWhile isDigit u
      in if z = [] then None
         else Some (if neg then - digitsValue z else digitsValue z))"

definition parseInt :: "json \<Rightarrow> int option" where
  "parseInt v = parseIntStr (toString v)"


section \<open>Data model\<close>

text \<open>
  The three models of \<^verbatim>\<open>schema.prisma\<close>. Identifiers (\<^verbatim>\<open>@default(uuid())\<close>) are drawn from a
  counter kept in the store, so that a new row always gets an unused one. Every table is a
  list in creation order, which is what \<^verbatim>\<open>orderBy: { createdAt: 'asc' }\<close> returns; the
  time stamps themselves are left out. A store operation fails (and the handler's
  \<^verbatim>\<open>catch\<close> answers 500) when it is handed an invalid date; the database engine itself
  does not fail here.
\<close>

text \<open>A \<^verbatim>\<open>Date\<close> object: its time value, or the invalid date.\<close>

datatype date = Date int | InvalidDate

record user =
  uid :: nat
  email :: string
  passwordHash :: string
  googleId :: "string option"

record board =
  bid :: nat
  name :: string
  userId :: nat

record task =
  tid :: nat
  title :: string
  description :: "string option"
  status :: string
  startDate :: "date option"
  estimatedFinishDate :: "date option"
  reminderDateTime :: "date option"
  progress :: int
  boardId :: nat

record store =
  users :: "user list"
  boards :: "board list"
  tasks :: "task list"
  nextId :: nat

definition emptyStore :: store where
  "emptyStore = \<lparr>users = [], boards = [], tasks = [], nextId = 1\<rparr>"

subsection \<open>Store operations used by the handlers\<close>

definition findUser :: "store \<Rightarrow> nat \<Rightarrow> user option" where
  "findUser s i = find (\<lambda>u. uid u = i) (users s)"

definition findUserByEmail :: "store \<Rightarrow> string \<Rightarrow> user option" where
  "findUserByEmail s e = find (\<lambda>u. email u = e) (users s)"

definition findUserByGoogleId :: "store \<Rightarrow> string \<Rightarrow> user option" where
  "findUserByGoogleId s g = find (\<lambda>u. googleId u = Some g) (users s)"

definition findBoard :: "store \<Rightarrow> nat \<Rightarrow> board option" where
  "findBoard s i = find (\<lambda>b. bid b = i) (boards s)"

definition findTask :: "store \<Rightarrow> nat \<Rightarrow> task option" where
  "findTask s i = find (\<lambda>t. tid t = i) (tasks s)"

definition boardsOfUser :: "store \<Rightarrow> nat \<Rightarrow> board list" where
  "boardsOfUser s u = filter (\<lambda>b. userId b = u) (boards s)"

definition tasksOfBoard :: "store \<Rightarrow> nat \<Rightarrow> task list" where
  "tasksOfBoard s b = filter (\<lambda>t. boardId t = b) (tasks s)"

definition userCreate :: "string \<Rightarrow> string \<Rightarrow> string option \<Rightarrow> store \<Rightarrow> user \<times> store" where
  "userCreate e h g s =
     (let u = \<lparr>uid = nextId s, email = e, passwordHash = h, googleId = g\<rparr>
      in (u, s\<lparr>users := users s @ [u], nextId := Suc (nextId s)\<rparr>))"

definition boardCreate :: "string \<Rightarrow> nat \<Rightarrow> store \<Rightarrow> board \<times> store" where
  "boardCreate n u s =
     (let b = \<lparr>bid = nextId s, name = n, userId = u\<rparr>
      in (b, s\<lparr>boards := boards s @ [b], nextId := Suc (nextId s)\<rparr>))"

definition boardUpdate :: "nat \<Rightarrow> string \<Rightarrow> store \<Rightarrow> store" where
  "boardUpdate i n s =
     s\<lparr>boards := map (\<lambda>b. if bid b = i then b\<lparr>name := n\<rparr> else b) (boards s)\<rparr>"

text \<open>
  \<^verbatim>\<open>Task.board\<close> is declared \<^verbatim>\<open>onDelete: Cascade\<close> (under \<^verbatim>\<open>relationMode = "prisma"\<close> the
  client carries the cascade out itself), so deleting a board row deletes the task rows
  that refer to it.
\<close>

definition boardDelete :: "nat \<Rightarrow> store \<Rightarrow> store" where
  "boardDelete i s =
     s\<lparr>boards := filter (\<lambda>b. bid b \<noteq> i) (boards s),
       tasks := filter (\<lambda>t. boardId t \<noteq> i) (tasks s)\<rparr>"

definition taskDelete :: "nat \<Rightarrow> store \<Rightarrow> store" where
  "taskDelete i s = s\<lparr>tasks := filter (\<lambda>t. tid t \<noteq> i) (tasks s)\<rparr>"

section \<open>Environment and responses\<close>

text \<open>
  The libraries the server calls are parameters: \<^verbatim>\<open>bcrypt.hash\<close>, \<^verbatim>\<open>bcrypt.compare\<close>,
  \<^verbatim>\<open>jwt.sign\<close> and \<^verbatim>\<open>jwt.verify\<close> (\<open>None\<close> when it reports an error: a bad signature, an
  expired or malformed token), and the configured \<^verbatim>\<open>FRONTEND_URL\<close>. So is the time value
  of \<^verbatim>\<open>new Date(x)\<close>, which the language leaves to the implementation for most texts
  (\<open>None\<close> when the date is invalid).
\<close>

record jwtPayload =
  payloadUserId :: "nat option"
  payloadEmail :: string

record env =
  bcryptHash :: "string \<Rightarrow> string"
  bcryptCompare :: "string \<Rightarrow> string \<Rightarrow> bool"
  jwtSign :: "jwtPayload \<Rightarrow> string"
  jwtVerify :: "string \<Rightarrow> jwtPayload option"
  frontendUrl :: string
  newDate :: "json \<Rightarrow> int option"

datatype content =
    Message string
  | StatusText string
  | NoContent
  | UserCreated nat string
  | LoginOk string
  | BoardList "board list"
  | BoardJson board
  | TaskList "task list"
  | TaskJson task
  | Redirect string

datatype response = Response (code: nat) (content: content)


section \<open>Authentication middleware\<close>

fun splitOn :: "char \<Rightarrow> string \<Rightarrow> string list" where
  "splitOn c [] = [[]]"
| "splitOn c (x # xs) =
     (if x = c then [] # splitOn c xs
      else (case splitOn c xs of y # ys \<Rightarrow> (x # y) # ys | [] \<Rightarrow> [[x]]))"

text \<open>
  \<^verbatim>\<open>authHeader && authHeader.split(' ')[1]\<close>: an absent header gives \<^verbatim>\<open>undefined\<close>, an empty
  header gives the empty string itself, any other header its second space-separated part
  (\<^verbatim>\<open>undefined\<close> when there is none). \<open>None\<close> is the \<^verbatim>\<open>token == null\<close> case.
\<close>

definition bearerToken :: "string option \<Rightarrow> string option" where
  "bearerToken authHeader =
     (case authHeader of
        None \<Rightarrow> None
      | Some h \<Rightarrow>
          if h = [] then Some []
          else (case splitOn CHR '' '' h of _ # t # _ \<Rightarrow> Some t | _ \<Rightarrow> None))"

definition authenticateToken ::
  "env \<Rightarrow> string option \<Rightarrow> (jwtPayload \<Rightarrow> store \<Rightarrow> response \<times> store) \<Rightarrow> store \<Rightarrow> response \<times> store" where
  "authenticateToken e authHeader next s =
     (case bearerToken authHeader of
        None \<Rightarrow> (Response 401 (StatusText ''Unauthorized''), s)
      | Some token \<Rightarrow>
          (case jwtVerify e token of
             None \<Rightarrow> (Response 403 (StatusText ''Forbidden''), s)
           | Some userPayload \<Rightarrow> next userPayload s))"

section \<open>Email and password routes\<close>

record credentials =
  reqEmail :: "string option"
  reqPassword :: "string option"

definition isUpper :: "char \<Rightarrow> bool" where
  "isUpper c = (65 \<le> (of_char c :: nat) \<and> (of_char c :: nat) \<le> 90)"

definition isLower :: "char \<Rightarrow> bool" where
  "isLower c = (97 \<le> (of_char c :: nat) \<and> (of_char c :: nat) \<le> 122)"

definition signup :: "env \<Rightarrow> credentials \<Rightarrow> store \<Rightarrow> response \<times> store" where
  "signup e body s =
     (case reqEmail body of
        None \<Rightarrow> (Response 400 (Message ''Email and password are required.''), s)
      | Some em \<Rightarrow>
     (case reqPassword body of
        None \<Rightarrow> (Response 400 (Message ''Email and password are required.''), s)
      | Some pw \<Rightarrow>
          if em = [] \<or> pw = [] then
            (Response 400 (Message ''Email and password are required.''), s)
          else if length pw < 8 then
            (Response 400 (Message ''Password must be at least 8 characters long.''), s)
          else if \<not> list_ex isUpper pw then
            (Response 400 (Message ''Password must contain at least one uppercase letter.''), s)
          else if \<not> list_ex isLower pw then
            (Response 400 (Message ''Password must contain at least one lowercase letter.''), s)
          else if \<not> list_ex isDigit pw then
            (Response 400 (Message ''Password must contain at least one number.''), s)
          else
            (case findUserByEmail s em of
               Some existingUser \<Rightarrow> (Response 400 (Message ''Email already in use.''), s)
             | None \<Rightarrow>
                 (case userCreate em (bcryptHash e pw) None s of
                    (u, s') \<Rightarrow> (Response 201 (UserCreated (uid u) (email u)), s')))))"

definition login :: "env \<Rightarrow> credentials \<Rightarrow> store \<Rightarrow> response \<times> store" where
  "login e body s =
     (case reqEmail body of
        None \<Rightarrow> (Response 400 (Message ''Email and password are required.''), s)
      | Some em \<Rightarrow>
     (case reqPassword body of
        None \<Rightarrow> (Response 400 (Message ''Email and password are required.''), s)
      | Some pw \<Rightarrow>
          if em = [] \<or> pw = [] then
            (Response 400 (Message ''Email and password are required.''), s)
          else
            (case findUserByEmail s em of
               None \<Rightarrow>
                 (Response 401 (Message
                    ''Invalid credentials. Please use Google Sign-In if you registered with Google.''), s)
             | Some u \<Rightarrow>
                 if passwordHash u = [] then
                   (Response 401 (Message
                      ''Invalid credentials. Please use Google Sign-In if you registered with Google.''), s)
                 else if \<not> bcryptCompare e pw (passwordHash u) then
                   (Response 401 (Message ''Invalid credentials.''), s)
                 else
                   (Response 200
                      (LoginOk (jwtSign e \<lparr>payloadUserId = Some (uid u), payloadEmail = email u\<rparr>)), s))))"

section \<open>Google sign-in\<close>

record googleProfile =
  profileId :: string
  profileEmail :: "string option"

text \<open>
  The strategy's verify callback: find by Google id, else link by email, else create a user
  with the empty password hash. \<open>None\<close> is \<^verbatim>\<open>done(new Error(...), null)\<close>.
\<close>

definition googleVerify :: "googleProfile \<Rightarrow> store \<Rightarrow> user option \<times> store" where
  "googleVerify profile s =
     (case findUserByGoogleId s (profileId profile) of
        Some u \<Rightarrow> (Some u, s)
      | None \<Rightarrow>
          (case profileEmail profile of
             None \<Rightarrow> (None, s)
           | Some em \<Rightarrow>
               if em = [] then (None, s)
               else
                 (case findUserByEmail s em of
                    Some u \<Rightarrow>
                      (Some (u\<lparr>googleId := Some (profileId profile)\<rparr>),
                       s\<lparr>users := map (\<lambda>x. if email x = em
                                            then x\<lparr>googleId := Some (profileId profile)\<rparr> else x)
                                     (users s)\<rparr>)
                  | None \<Rightarrow>
                      (case userCreate em [] (Some (profileId profile)) s of
                         (u, s') \<Rightarrow> (Some u, s')))))"

definition googleCallback :: "env \<Rightarrow> googleProfile \<Rightarrow> store \<Rightarrow> response \<times> store" where
  "googleCallback e profile s =
     (case googleVerify profile s of
        (None, s') \<Rightarrow> (Response 500 (Message ''No email found in Google profile.''), s')
      | (Some u, s') \<Rightarrow>
          (Response 302
             (Redirect (frontendUrl e @ ''/auth/callback?token='' @
                        jwtSign e \<lparr>payloadUserId = Some (uid u), payloadEmail = email u\<rparr>)), s'))"


section \<open>Board routes\<close>

record boardBody =
  reqName :: "string option"

definition getBoards :: "jwtPayload \<Rightarrow> store \<Rightarrow> response \<times> store" where
  "getBoards p s =
     (case payloadUserId p of
        None \<Rightarrow> (Response 401 (StatusText ''Unauthorized''), s)
      | Some u \<Rightarrow> (Response 200 (BoardList (boardsOfUser s u)), s))"

definition postBoard :: "boardBody \<Rightarrow> jwtPayload \<Rightarrow> store \<Rightarrow> response \<times> store" where
  "postBoard body p s =
     (case payloadUserId p of
        None \<Rightarrow> (Response 401 (StatusText ''Unauthorized''), s)
      | Some u \<Rightarrow>
          (case reqName body of
             None \<Rightarrow> (Response 400 (Message ''Board name is required.''), s)
           | Some n \<Rightarrow>
               if n = [] then (Response 400 (Message ''Board name is required.''), s)
               else (case boardCreate n u s of
                       (newBoard, s') \<Rightarrow> (Response 201 (BoardJson newBoard), s'))))"

definition putBoard :: "nat \<Rightarrow> boardBody \<Rightarrow> jwtPayload \<Rightarrow> store \<Rightarrow> response \<times> store" where
  "putBoard boardId' body p s =
     (case payloadUserId p of
        None \<Rightarrow> (Response 401 (StatusText ''Unauthorized''), s)
      | Some u \<Rightarrow>
          (case reqName body of
             None \<Rightarrow> (Response 400 (Message ''New board name is required.''), s)
           | Some n \<Rightarrow>
               if n = [] then (Response 400 (Message ''New board name is required.''), s)
               else
                 (case findBoard s boardId' of
                    None \<Rightarrow> (Response 404 (Message ''Board not found or user not authorized.''), s)
                  | Some b \<Rightarrow>
                      if userId b \<noteq> u then
                        (Response 404 (Message ''Board not found or user not authorized.''), s)
                      else
                        (Response 200 (Message ''Board updated successfully.''),
                         boardUpdate boardId' n s))))"

definition deleteBoard :: "nat \<Rightarrow> jwtPayload \<Rightarrow> store \<Rightarrow> response \<times> store" where
  "deleteBoard boardId' p s =
     (case payloadUserId p of
        None \<Rightarrow> (Response 401 (StatusText ''Unauthorized''), s)
      | Some u \<Rightarrow>
          (case findBoard s boardId' of
             None \<Rightarrow> (Response 404 (Message ''Board not found or user not authorized.''), s)
           | Some b \<Rightarrow>
               if userId b \<noteq> u then
                 (Response 404 (Message ''Board not found or user not authorized.''), s)
               else (Response 204 NoContent, boardDelete boardId' s)))"

section \<open>Task routes\<close>

text \<open>
  A task body. \<open>None\<close> is a field the body does not have (\<^verbatim>\<open>undefined\<close>); for the nullable
  column \<open>Some None\<close> is \<^verbatim>\<open>null\<close>. Title and description have the type of their column;
  status, progress and the three dates are any JSON value.
\<close>

record taskBody =
  reqTitle :: "string option"
  reqDescription :: "string option option"
  reqStatus :: "json option"
  reqStartDate :: "json option"
  reqEstimatedFinishDate :: "json option"
  reqReminderDateTime :: "json option"
  reqProgress :: "json option"

definition validStatuses :: "string list" where
  "validStatuses = [''todo'', ''inprogress'', ''done'']"

text \<open>\<^verbatim>\<open>x ? new Date(x) : null\<close>\<close>

definition toDate :: "env \<Rightarrow> json \<Rightarrow> date option" where
  "toDate e x =
     (if truthy x then Some (case newDate e x of Some t \<Rightarrow> Date t | None \<Rightarrow> InvalidDate)
      else None)"

text \<open>
  \<^verbatim>\<open>(!isNaN(numProgress) && numProgress >= 0 && numProgress <= 100) ? numProgress : d\<close>
  with \<^verbatim>\<open>numProgress = parseInt(v, 10)\<close>.
\<close>

definition progressOr :: "int \<Rightarrow> json \<Rightarrow> int" where
  "progressOr d v =
     (case parseInt v of
        None \<Rightarrow> d
      | Some numProgress \<Rightarrow> if 0 \<le> numProgress \<and> numProgress \<le> 100 then numProgress else d)"

text \<open>
  \<^verbatim>\<open>prisma.task.create\<close>. The client refuses an invalid \<^verbatim>\<open>Date\<close> before anything is
  written: \<open>None\<close> is the exception it throws.
\<close>

definition taskCreate :: "task \<Rightarrow> store \<Rightarrow> (task \<times> store) option" where
  "taskCreate t s =
     (if startDate t = Some InvalidDate \<or> estimatedFinishDate t = Some InvalidDate
         \<or> reminderDateTime t = Some InvalidDate
      then None
      else (let newTask = t\<lparr>tid := nextId s\<rparr>
            in Some (newTask, s\<lparr>tasks := tasks s @ [newTask], nextId := Suc (nextId s)\<rparr>)))"

definition getTasks :: "nat \<Rightarrow> jwtPayload \<Rightarrow> store \<Rightarrow> response \<times> store" where
  "getTasks boardId' p s =
     (case payloadUserId p of
        None \<Rightarrow> (Response 401 (StatusText ''Unauthorized''), s)
      | Some u \<Rightarrow>
          (case findBoard s boardId' of
             None \<Rightarrow> (Response 404 (Message ''Board not found.''), s)
           | Some b \<Rightarrow>
               if userId b \<noteq> u then
                 (Response 403 (Message ''User not authorized for this board.''), s)
               else (Response 200 (TaskList (tasksOfBoard s boardId')), s)))"

text \<open>\<^verbatim>\<open>status || 'todo'\<close>\<close>

definition taskStatusOf :: "taskBody \<Rightarrow> json" where
  "taskStatusOf body =
     (case reqStatus body of
        None \<Rightarrow> JStr ''todo''
      | Some v \<Rightarrow> if truthy v then v else JStr ''todo'')"

text \<open>
  \<^verbatim>\<open>let taskProgress = progress ?? 0\<close> and the statement after it, for the status
  \<open>taskStatus\<close> that passed the check.
\<close>

definition taskProgressOf :: "string \<Rightarrow> taskBody \<Rightarrow> int" where
  "taskProgressOf taskStatus body =
     (let taskProgress = (case reqProgress body of
                            None \<Rightarrow> jsInt 0
                          | Some JNull \<Rightarrow> jsInt 0
                          | Some v \<Rightarrow> v)
      in if taskStatus = ''done'' then 100
         else if taskStatus = ''todo'' then 0
         else progressOr 0 taskProgress)"

text \<open>The \<^verbatim>\<open>data\<close> of \<^verbatim>\<open>prisma.task.create\<close>; the store assigns the id.\<close>

definition newTaskData :: "env \<Rightarrow> nat \<Rightarrow> string \<Rightarrow> string \<Rightarrow> taskBody \<Rightarrow> task" where
  "newTaskData e boardId' ttl taskStatus body =
     \<lparr>tid = 0, title = ttl,
      description = (case reqDescription body of None \<Rightarrow> None | Some d \<Rightarrow> d),
      status = taskStatus,
      startDate = (case reqStartDate body of None \<Rightarrow> None | Some x \<Rightarrow> toDate e x),
      estimatedFinishDate =
        (case reqEstimatedFinishDate body of None \<Rightarrow> None | Some x \<Rightarrow> toDate e x),
      reminderDateTime =
        (case reqReminderDateTime body of None \<Rightarrow> None | Some x \<Rightarrow> toDate e x),
      progress = taskProgressOf taskStatus body,
      boardId = boardId'\<rparr>"

definition postTask ::
  "env \<Rightarrow> nat \<Rightarrow> taskBody \<Rightarrow> jwtPayload \<Rightarrow> store \<Rightarrow> response \<times> store" where
  "postTask e boardId' body p s =
     (case payloadUserId p of
        None \<Rightarrow> (Response 401 (StatusText ''Unauthorized''), s)
      | Some u \<Rightarrow>
     (case reqTitle body of
        None \<Rightarrow> (Response 400 (Message ''Task title is required.''), s)
      | Some ttl \<Rightarrow>
          if ttl = [] then (Response 400 (Message ''Task title is required.''), s)
          else
            (case taskStatusOf body of
               JStr taskStatus \<Rightarrow>
                 if taskStatus \<notin> set validStatuses then
                   (Response 400 (Message ''Invalid status value.''), s)
                 else
                   (case findBoard s boardId' of
                      None \<Rightarrow> (Response 404 (Message ''Board not found.''), s)
                    | Some b \<Rightarrow>
                        if userId b \<noteq> u then
                          (Response 403 (Message ''User not authorized for this board.''), s)
                        else
                          (case taskCreate (newTaskData e boardId' ttl taskStatus body) s of
                             None \<Rightarrow> (Response 500 (Message ''Error creating task.''), s)
                           | Some (newTask, s') \<Rightarrow> (Response 201 (TaskJson newTask), s')))
             | _ \<Rightarrow> (Response 400 (Message ''Invalid status value.''), s))))"

subsection \<open>Updating a task\<close>

text \<open>The object \<^verbatim>\<open>updateData\<close>: \<open>None\<close> is a key the object does not have.\<close>

record updateData =
  updTitle :: "string option"
  updDescription :: "string option option"
  updStartDate :: "date option option"
  updEstimatedFinishDate :: "date option option"
  updReminderDateTime :: "date option option"
  updStatus :: "string option"
  updProgress :: "int option"

text \<open>\<^verbatim>\<open>Object.keys(updateData).length === 0\<close>\<close>

definition noKeys :: "updateData \<Rightarrow> bool" where
  "noKeys d =
     (updTitle d = None \<and> updDescription d = None \<and> updStartDate d = None \<and>
      updEstimatedFinishDate d = None \<and> updReminderDateTime d = None \<and>
      updStatus d = None \<and> updProgress d = None)"

text \<open>
  The part of the handler that fills \<^verbatim>\<open>updateData\<close> before the store is read; \<open>Inl\<close> is
  an early \<^verbatim>\<open>return res.status(400)\<close>.
\<close>

definition buildUpdateData :: "env \<Rightarrow> taskBody \<Rightarrow> response + updateData" where
  "buildUpdateData e body =
     (let d0 = \<lparr>updTitle = reqTitle body,
                updDescription = reqDescription body,
                updStartDate = map_option (toDate e) (reqStartDate body),
                updEstimatedFinishDate = map_option (toDate e) (reqEstimatedFinishDate body),
                updReminderDateTime = map_option (toDate e) (reqReminderDateTime body),
                updStatus = None, updProgress = None\<rparr>
      in (case reqStatus body of
            Some v \<Rightarrow>
              (case v of
                 JStr st \<Rightarrow>
                   if st \<notin> set validStatuses then
                     Inl (Response 400 (Message ''Invalid status value.''))
                   else
                     Inr (d0\<lparr>updStatus := Some st,
                             updProgress :=
                               (if st = ''todo'' then Some 0
                                else if st = ''done'' then Some 100
                                else if st = ''inprogress'' then
                                  (case reqProgress body of
                                     None \<Rightarrow> Some 25
                                   | Some pv \<Rightarrow> Some (progressOr 25 pv))
                                else None)\<rparr>)
               | _ \<Rightarrow> Inl (Response 400 (Message ''Invalid status value.'')))
          | None \<Rightarrow>
              (case reqProgress body of
                 Some pv \<Rightarrow>
                   (case parseInt pv of
                      None \<Rightarrow> Inl (Response 400 (Message ''Invalid progress value.''))
                    | Some numProgress \<Rightarrow>
                        if numProgress < 0 \<or> numProgress > 100 then
                          Inl (Response 400 (Message ''Invalid progress value.''))
                        else Inr (d0\<lparr>updProgress := Some numProgress\<rparr>))
               | None \<Rightarrow> Inr d0)))"

definition applyUpdate :: "updateData \<Rightarrow> task \<Rightarrow> task" where
  "applyUpdate d t =
     t\<lparr>title := (case updTitle d of None \<Rightarrow> title t | Some x \<Rightarrow> x),
       description := (case updDescription d of None \<Rightarrow> description t | Some x \<Rightarrow> x),
       startDate := (case updStartDate d of None \<Rightarrow> startDate t | Some x \<Rightarrow> x),
       estimatedFinishDate :=
         (case updEstimatedFinishDate d of None \<Rightarrow> estimatedFinishDate t | Some x \<Rightarrow> x),
       reminderDateTime :=
         (case updReminderDateTime d of None \<Rightarrow> reminderDateTime t | Some x \<Rightarrow> x),
       status := (case updStatus d of None \<Rightarrow> status t | Some x \<Rightarrow> x),
       progress := (case updProgress d of None \<Rightarrow> progress t | Some x \<Rightarrow> x)\<rparr>"

text \<open>
  \<^verbatim>\<open>prisma.task.update\<close>; as for the create, \<open>None\<close> is the exception thrown for an invalid
  \<^verbatim>\<open>Date\<close> in the data.
\<close>

definition taskUpdate :: "nat \<Rightarrow> updateData \<Rightarrow> store \<Rightarrow> store option" where
  "taskUpdate i d s =
     (if updStartDate d = Some (Some InvalidDate) \<or> updEstimatedFinishDate d = Some (Some InvalidDate)
         \<or> updReminderDateTime d = Some (Some InvalidDate)
      then None
      else Some (s\<lparr>tasks := map (\<lambda>t. if tid t = i then applyUpdate d t else t) (tasks s)\<rparr>))"

text \<open>The last two statements in the \<^verbatim>\<open>try\<close> of the update handler.\<close>

definition writeUpdate :: "nat \<Rightarrow> updateData \<Rightarrow> task \<Rightarrow> store \<Rightarrow> response \<times> store" where
  "writeUpdate taskId d t s =
     (case taskUpdate taskId d s of
        None \<Rightarrow> (Response 500 (Message ''Error updating task.''), s)
      | Some s' \<Rightarrow> (Response 200 (TaskJson (applyUpdate d t)), s'))"

text \<open>
  \<^verbatim>\<open>include: { board: ... }\<close> reads the board row of the task; \<^verbatim>\<open>task.board.userId\<close> on a task
  without one throws inside the \<^verbatim>\<open>try\<close>, which answers 500.
\<close>

definition putTask ::
  "env \<Rightarrow> nat \<Rightarrow> taskBody \<Rightarrow> jwtPayload \<Rightarrow> store \<Rightarrow> response \<times> store" where
  "putTask e taskId body p s =
     (case payloadUserId p of
        None \<Rightarrow> (Response 401 (StatusText ''Unauthorized''), s)
      | Some u \<Rightarrow>
     (case buildUpdateData e body of
        Inl r \<Rightarrow> (r, s)
      | Inr d \<Rightarrow>
          if noKeys d then (Response 400 (Message ''No valid update data provided.''), s)
          else
            (case findTask s taskId of
               None \<Rightarrow> (Response 404 (Message ''Task not found.''), s)
             | Some t \<Rightarrow>
                 (case findBoard s (boardId t) of
                    None \<Rightarrow> (Response 500 (Message ''Error updating task.''), s)
                  | Some b \<Rightarrow>
                      if userId b \<noteq> u then (Response 403 (Message ''User not authorized.''), s)
                      else if updProgress d \<noteq> None \<and> updStatus d = None
                              \<and> status t \<noteq> ''inprogress'' then
                        (let d' = d\<lparr>updProgress := None\<rparr>
                         in if noKeys d' then
                              (Response 400 (Message ''Progress cannot be updated...''), s)
                            else writeUpdate taskId d' t s)
                      else writeUpdate taskId d t s))))"

definition deleteTask :: "nat \<Rightarrow> jwtPayload \<Rightarrow> store \<Rightarrow> response \<times> store" where
  "deleteTask taskId p s =
     (case payloadUserId p of
        None \<Rightarrow> (Response 401 (StatusText ''Unauthorized''), s)
      | Some u \<Rightarrow>
          (case findTask s taskId of
             None \<Rightarrow> (Response 404 (Message ''Task not found.''), s)
           | Some t \<Rightarrow>
               (case findBoard s (boardId t) of
                  None \<Rightarrow> (Response 500 (Message ''Error deleting task.''), s)
                | Some b \<Rightarrow>
                    if userId b \<noteq> u then (Response 403 (Message ''User not authorized.''), s)
                    else (Response 204 NoContent, taskDelete taskId s))))"

section \<open>Request router\<close>

text \<open>
  One constructor per route. The board and task routes carry the value of the
  \<^verbatim>\<open>Authorization\<close> header (\<open>None\<close> when the request has none) and pass through
  \<open>authenticateToken\<close> first.
\<close>

datatype request =
    GetTest
  | PostSignup credentials
  | PostLogin credentials
  | GetGoogleCallback googleProfile
  | GetBoards "string option"
  | PostBoard "string option" boardBody
  | PutBoard "string option" nat boardBody
  | DeleteBoard "string option" nat
  | GetTasks "string option" nat
  | PostTask "string option" nat taskBody
  | PutTask "string option" nat taskBody
  | DeleteTask "string option" nat

fun handle :: "env \<Rightarrow> request \<Rightarrow> store \<Rightarrow> response \<times> store" where
  "handle e GetTest s = (Response 200 (Message ''Backend API is running!''), s)"
| "handle e (PostSignup body) s = signup e body s"
| "handle e (PostLogin body) s = login e body s"
| "handle e (GetGoogleCallback profile) s = googleCallback e profile s"
| "handle e (GetBoards h) s = authenticateToken e h getBoards s"
| "handle e (PostBoard h body) s = authenticateToken e h (postBoard body) s"
| "handle e (PutBoard h i body) s = authenticateToken e h (putBoard i body) s"
| "handle e (DeleteBoard h i) s = authenticateToken e h (deleteBoard i) s"
| "handle e (GetTasks h i) s = authenticateToken e h (getTasks i) s"
| "handle e (PostTask h i body) s = authenticateToken e h (postTask e i body) s"
| "handle e (PutTask h i body) s = authenticateToken e h (putTask e i body) s"
| "handle e (DeleteTask h i) s = authenticateToken e h (deleteTask i) s"

text \<open>The stores the server can be in: the empty one and whatever a request leaves behind.\<close>

inductive reachable :: "env \<Rightarrow> store \<Rightarrow> bool" for e :: env where
  reachable_empty: "reachable e emptyStore"
| reachable_step: "reachable e s \<Longrightarrow> reachable e (snd (handle e rq s))"


section \<open>Properties named by the specification\<close>

text \<open>The write policy on a task: progress within 0..100, 0 for todo, 100 for done.\<close>

definition taskInv :: "task \<Rightarrow> bool" where
  "taskInv t =
     (0 \<le> progress t \<and> progress t \<le> 100 \<and>
      (status t = ''todo'' \<longrightarrow> progress t = 0) \<and>
      (status t = ''done'' \<longrightarrow> progress t = 100))"

text \<open>
  What every store the server can reach satisfies: each task obeys the write policy, task
  ids are pairwise different and below the id counter.
\<close>

definition storeInv :: "store \<Rightarrow> bool" where
  "storeInv s =
     (list_all taskInv (tasks s) \<and> distinct (map tid (tasks s)) \<and>
      list_all (\<lambda>t. tid t < nextId s) (tasks s))"

text \<open>The password policy: at least 8 characters, an upper-case letter, a lower-case letter, a digit.\<close>

definition strongPassword :: "string \<Rightarrow> bool" where
  "strongPassword pw =
     (8 \<le> length pw \<and> list_ex isUpper pw \<and> list_ex isLower pw \<and> list_ex isDigit pw)"

text \<open>A progress value that parses as an integer within 0..100.\<close>

definition validProgress :: "json \<Rightarrow> bool" where
  "validProgress v = (case parseInt v of None \<Rightarrow> False | Some n \<Rightarrow> 0 \<le> n \<and> n \<le> 100)"







text \<open>The \<^verbatim>\<open>Authorization\<close> header of a request to a route behind \<open>authenticateToken\<close>.\<close>

fun authorization :: "request \<Rightarrow> string option option" where
  "authorization GetTest = None"
| "authorization (PostSignup body) = None"
| "authorization (PostLogin body) = None"
| "authorization (GetGoogleCallback profile) = None"
| "authorization (GetBoards h) = Some h"
| "authorization (PostBoard h body) = Some h"
| "authorization (PutBoard h i body) = Some h"
| "authorization (DeleteBoard h i) = Some h"
| "authorization (GetTasks h i) = Some h"
| "authorization (PostTask h i body) = Some h"
| "authorization (PutTask h i body) = Some h"
| "authorization (DeleteTask h i) = Some h"

section \<open>A small running system\<close>

text \<open>
  An environment with toy library functions, and the store after Ann and Bob signed up, Gil
  came in through Google, and Ann made the board "Home" with the task "Buy milk".
\<close>

definition annPayload :: jwtPayload where
  "annPayload = \<lparr>payloadUserId = Some 1, payloadEmail = ''ann@x.io''\<rparr>"

definition bobPayload :: jwtPayload where
  "bobPayload = \<lparr>payloadUserId = Some 2, payloadEmail = ''bob@x.io''\<rparr>"

definition exampleEnv :: env where
  "exampleEnv =
     \<lparr>bcryptHash = (\<lambda>pw. ''#'' @ pw),
      bcryptCompare = (\<lambda>pw h. h = ''#'' @ pw),
      jwtSign = (\<lambda>p. if payloadUserId p = Some 1 then ''A'' else
                      if payloadUserId p = Some 2 then ''B'' else ''G''),
      jwtVerify = (\<lambda>t. if t = ''A'' then Some annPayload else
                        if t = ''B'' then Some bobPayload else None),
      frontendUrl = ''http://localhost:3000'',
      newDate = (\<lambda>x. if x = JStr ''2026-11-02T00:00:00.000Z'' then Some 1793577600000 else None)\<rparr>"

definition annHeader :: "string option" where
  "annHeader = Some ''Bearer A''"


definition emptyBody :: taskBody where
  "emptyBody =
     \<lparr>reqTitle = None, reqDescription = None, reqStatus = None, reqStartDate = None,
      reqEstimatedFinishDate = None, reqReminderDateTime = None, reqProgress = None\<rparr>"

definition milk :: task where
  "milk =
     \<lparr>tid = 5, title = ''Buy milk'', description = None, status = ''todo'', startDate = None,
      estimatedFinishDate = None, reminderDateTime = None, progress = 0, boardId = 4\<rparr>"

definition exampleStore :: store where
  "exampleStore =
     \<lparr>users = [\<lparr>uid = 1, email = ''ann@x.io'', passwordHash = ''#Abcdefg1'', googleId = None\<rparr>,
               \<lparr>uid = 2, email = ''bob@x.io'', passwordHash = ''#Zyxwvut9'', googleId = None\<rparr>,
               \<lparr>uid = 3, email = ''gil@x.io'', passwordHash = [], googleId = Some ''g-77''\<rparr>],
      boards = [\<lparr>bid = 4, name = ''Home'', userId = 1\<rparr>],
      tasks = [milk],
      nextId = 6\<rparr>"






definition exampleRequests :: "request list" where
  "exampleRequests =
     [PostSignup \<lparr>reqEmail = Some ''ann@x.io'', reqPassword = Some ''Abcdefg1''\<rparr>,
      PostSignup \<lparr>reqEmail = Some ''bob@x.io'', reqPassword = Some ''Zyxwvut9''\<rparr>,
      GetGoogleCallback \<lparr>profileId = ''g-77'', profileEmail = Some ''gil@x.io''\<rparr>,
      PostBoard annHeader \<lparr>reqName = Some ''Home''\<rparr>,
      PostTask annHeader 4 (emptyBody\<lparr>reqTitle := Some ''Buy milk''\<rparr>)]"

text \<open>Serving a list of requests in order, from a given store.\<close>

fun serve :: "env \<Rightarrow> request list \<Rightarrow> store \<Rightarrow> store" where
  "serve e [] s = s"
| "serve e (rq # rqs) s = serve e rqs (snd (handle e rq s))"


section \<open>Basic facts about the store\<close>


lemma tid_applyUpdate [simp]: "tid (applyUpdate d t) = tid t"
  by (simp add: applyUpdate_def)

lemma boardId_applyUpdate [simp]: "boardId (applyUpdate d t) = boardId t"
  by (simp add: applyUpdate_def)


lemma serve_reachable: "reachable e s \<Longrightarrow> reachable e (serve e rqs s)"
  by (induction rqs arbitrary: s) (auto intro: reachable.intros)

lemma exampleStore_served: "serve exampleEnv exampleRequests emptyStore = exampleStore"
  by code_simp

lemma exampleStore_reachable: "reachable exampleEnv exampleStore"
  using serve_reachable [OF reachable_empty, of exampleEnv exampleRequests]
  by (simp only: exampleStore_served)


section \<open>Dates and the write to the store\<close>






section \<open>Updating a task: status and progress\<close>







section \<open>The write policy holds in every reachable store\<close>

lemma findTask_Some: "findTask s j = Some t \<Longrightarrow> t \<in> set (tasks s) \<and> tid t = j"
  by (auto simp: findTask_def find_Some_iff)

lemma findTask_unique:
  assumes "distinct (map tid (tasks s))" "findTask s j = Some t" "t' \<in> set (tasks s)" "tid t' = j"
  shows "t' = t"
  using assms findTask_Some [OF assms(2)] by (auto simp: distinct_map inj_on_def)

lemma progressOr_range: "0 \<le> d \<Longrightarrow> d \<le> 100 \<Longrightarrow> 0 \<le> progressOr d v \<and> progressOr d v \<le> 100"
  by (simp add: progressOr_def split: option.splits)

lemma buildUpdateData_cases:
  assumes "buildUpdateData e body = Inr d"
  shows "(\<exists>st pr. updStatus d = Some st \<and> updProgress d = Some pr \<and> 0 \<le> pr \<and> pr \<le> 100
            \<and> (st = ''todo'' \<longrightarrow> pr = 0) \<and> (st = ''done'' \<longrightarrow> pr = 100))
       \<or> (updStatus d = None \<and> updProgress d = None)
       \<or> (updStatus d = None \<and> (\<exists>n. updProgress d = Some n \<and> 0 \<le> n \<and> n \<le> 100))"
  using assms progressOr_range [of 25]
  by (auto simp: buildUpdateData_def validStatuses_def Let_def
           split: option.splits json.splits if_splits)

lemma buildUpdateData_Inl: "buildUpdateData e body = Inl r \<Longrightarrow> code r = 400"
  by (auto simp: buildUpdateData_def Let_def split: option.splits json.splits if_splits)

lemma applyUpdate_inv:
  assumes "buildUpdateData e body = Inr d" "taskInv t"
    and "updStatus d \<noteq> None \<or> updProgress d = None \<or> status t = ''inprogress''"
  shows "taskInv (applyUpdate d t)"
  using buildUpdateData_cases [OF assms(1)] assms(2,3)
  by (auto simp: taskInv_def applyUpdate_def)

lemma applyUpdate_dropped_inv:
  assumes "taskInv t" "updStatus d = None"
  shows "taskInv (applyUpdate (d\<lparr>updProgress := None\<rparr>) t)"
  using assms by (simp add: taskInv_def applyUpdate_def)

lemma taskUpdate_inv:
  assumes "storeInv s" "findTask s j = Some t" "taskInv (applyUpdate d t)"
    and "taskUpdate j d s = Some s'"
  shows "storeInv s'"
proof -
  have "taskInv (applyUpdate d t')" if "t' \<in> set (tasks s)" "tid t' = j" for t'
    using findTask_unique [OF _ assms(2) that] assms(1,3) by (simp add: storeInv_def)
  moreover have "tid \<circ> (\<lambda>t. if tid t = j then applyUpdate d t else t) = tid"
    by (auto simp: fun_eq_iff)
  ultimately show ?thesis
    using assms(1,4) by (auto simp: storeInv_def taskUpdate_def list_all_iff split: if_splits)
qed

lemma taskUpdate_mem:
  "taskUpdate j d s = Some s' \<Longrightarrow> findTask s j = Some t \<Longrightarrow> applyUpdate d t \<in> set (tasks s')"
  by (force simp: taskUpdate_def dest: findTask_Some split: if_splits)

lemma writeUpdate_cases:
  assumes "writeUpdate j d t s = (r, s')"
  shows "(s' = s \<and> code r = 500)
       \<or> (r = Response 200 (TaskJson (applyUpdate d t)) \<and> taskUpdate j d s = Some s')"
  using assms by (auto simp: writeUpdate_def split: option.splits)

text \<open>Every way \<open>putTask\<close> can end.\<close>

lemma putTask_cases:
  assumes "putTask e j body p s = (r, s')"
  shows "(s' = s \<and> code r \<in> {400, 401, 403, 404, 500})
       \<or> (\<exists>u d t b. payloadUserId p = Some u \<and> buildUpdateData e body = Inr d
             \<and> findTask s j = Some t \<and> findBoard s (boardId t) = Some b \<and> userId b = u
             \<and> (let d' = (if updProgress d \<noteq> None \<and> updStatus d = None
                              \<and> status t \<noteq> ''inprogress''
                           then d\<lparr>updProgress := None\<rparr> else d)
                in r = Response 200 (TaskJson (applyUpdate d' t)) \<and> taskUpdate j d' s = Some s'))"
proof (cases "payloadUserId p")
  case None
  then show ?thesis using assms by (auto simp: putTask_def)
next
  case (Some u)
  show ?thesis
  proof (cases "buildUpdateData e body")
    case (Inl r0)
    then show ?thesis using assms Some buildUpdateData_Inl [OF Inl] by (auto simp: putTask_def)
  next
    case (Inr d)
    show ?thesis
    proof (cases "findTask s j")
      case None
      then show ?thesis using assms Some Inr by (auto simp: putTask_def split: if_splits)
    next
      case t: (Some t)
      show ?thesis
      proof (cases "findBoard s (boardId t)")
        case None
        then show ?thesis using assms Some Inr t by (auto simp: putTask_def split: if_splits)
      next
        case b: (Some b)
        show ?thesis
          using assms Some Inr t b
          by (auto simp: putTask_def Let_def split: if_splits dest!: writeUpdate_cases)
      qed
    qed
  qed
qed

lemma putTask_inv:
  assumes "storeInv s" "putTask e j body p s = (r, s')"
  shows "storeInv s' \<and>
         (code r = 200 \<longrightarrow> (\<exists>t'. content r = TaskJson t' \<and> t' \<in> set (tasks s') \<and> taskInv t'))"
  using putTask_cases [OF assms(2)]
proof (elim disjE exE conjE)
  assume "s' = s" "code r \<in> {400, 401, 403, 404, 500}"
  then show ?thesis using assms(1) by auto
next
  fix u and d :: updateData and t :: task and b
  let ?d = "if updProgress d \<noteq> None \<and> updStatus d = None \<and> status t \<noteq> ''inprogress''
            then d\<lparr>updProgress := None\<rparr> else d"
  assume d: "buildUpdateData e body = Inr d" and t: "findTask s j = Some t"
    and run: "let d' = ?d in r = Response 200 (TaskJson (applyUpdate d' t)) \<and> taskUpdate j d' s = Some s'"
  have tinv: "taskInv t"
    using assms(1) findTask_Some [OF t] by (simp add: storeInv_def list_all_iff)
  have "taskInv (applyUpdate ?d t)"
  proof (cases "updProgress d \<noteq> None \<and> updStatus d = None \<and> status t \<noteq> ''inprogress''")
    case True
    then show ?thesis using applyUpdate_dropped_inv [OF tinv, of d] by simp
  next
    case False
    then show ?thesis using applyUpdate_inv [OF d tinv] by auto
  qed
  moreover have upd: "taskUpdate j ?d s = Some s'" "r = Response 200 (TaskJson (applyUpdate ?d t))"
    using run by (simp_all add: Let_def)
  ultimately show ?thesis
    using taskUpdate_inv [OF assms(1) t _ upd(1)] taskUpdate_mem [OF upd(1) t] upd(2)
    by simp
qed

lemma taskCreate_Some:
  assumes "taskCreate t s = Some (t', s')"
  shows "t' = t\<lparr>tid := nextId s\<rparr>"
    and "s' = s\<lparr>tasks := tasks s @ [t'], nextId := Suc (nextId s)\<rparr>"
  using assms by (auto simp: taskCreate_def Let_def split: if_splits)

lemma taskCreate_inv:
  assumes "storeInv s" "taskInv t" "taskCreate t s = Some (t', s')"
  shows "storeInv s'" "taskInv t'" "t' \<in> set (tasks s')"
proof -
  note eq = taskCreate_Some [OF assms(3)]
  have fresh: "nextId s \<notin> tid ` set (tasks s)"
    using assms(1) by (auto simp: storeInv_def list_all_iff)
  show inv: "taskInv t'"
    using assms(2) by (simp add: eq(1) taskInv_def)
  have "tid t' = nextId s" by (simp add: eq(1))
  then show "storeInv s'"
    using assms(1) fresh inv
    by (subst eq(2)) (auto simp: storeInv_def list_all_iff intro: less_SucI)
  show "t' \<in> set (tasks s')"
    by (subst eq(2)) simp
qed

lemma newTaskData_inv: "st \<in> set validStatuses \<Longrightarrow> taskInv (newTaskData e i ttl st body)"
  using progressOr_range [of 0]
  by (auto simp: newTaskData_def taskProgressOf_def taskInv_def validStatuses_def Let_def)

lemma postTask_cases:
  assumes "postTask e i body p s = (r, s')"
  shows "(s' = s \<and> code r \<in> {400, 401, 403, 404, 500})
       \<or> (\<exists>u ttl st b t'. payloadUserId p = Some u \<and> reqTitle body = Some ttl \<and> ttl \<noteq> []
             \<and> taskStatusOf body = JStr st \<and> st \<in> set validStatuses
             \<and> findBoard s i = Some b \<and> userId b = u
             \<and> taskCreate (newTaskData e i ttl st body) s = Some (t', s')
             \<and> r = Response 201 (TaskJson t'))"
  using assms
  by (auto simp: postTask_def split: option.splits json.splits if_splits prod.splits)

lemma postTask_inv:
  assumes "storeInv s" "postTask e i body p s = (r, s')"
  shows "storeInv s' \<and>
         (code r = 201 \<longrightarrow> (\<exists>t'. content r = TaskJson t' \<and> t' \<in> set (tasks s') \<and> taskInv t'))"
  using postTask_cases [OF assms(2)]
proof (elim disjE exE conjE)
  assume "s' = s" "code r \<in> {400, 401, 403, 404, 500}"
  then show ?thesis using assms(1) by auto
next
  fix u ttl st b t'
  assume st: "st \<in> set validStatuses"
    and run: "taskCreate (newTaskData e i ttl st body) s = Some (t', s')"
      "r = Response 201 (TaskJson t')"
  show ?thesis
    using run(2) taskCreate_inv [OF assms(1) newTaskData_inv [OF st] run(1)] by simp
qed

lemma storeInv_tasks_kept:
  assumes "storeInv s" "tasks s' = filter P (tasks s)" "nextId s \<le> nextId s'"
  shows "storeInv s'"
  using assms by (auto simp: storeInv_def list_all_iff distinct_map_filter)

lemma storeInv_tasks_same:
  assumes "storeInv s" "tasks s' = tasks s" "nextId s \<le> nextId s'"
  shows "storeInv s'"
  using storeInv_tasks_kept [OF assms(1), of s' "\<lambda>t. True"] assms(2,3) by simp

lemma signup_inv: "storeInv s \<Longrightarrow> storeInv (snd (signup e body s))"
  by (rule storeInv_tasks_same [of s])
     (auto simp: signup_def userCreate_def Let_def split: option.splits)

lemma login_same: "snd (login e body s) = s"
  by (auto simp: login_def split: option.splits)

lemma googleCallback_inv: "storeInv s \<Longrightarrow> storeInv (snd (googleCallback e profile s))"
  by (rule storeInv_tasks_same [of s])
     (auto simp: googleCallback_def googleVerify_def userCreate_def Let_def
           split: option.splits prod.splits if_splits)

lemma getBoards_same: "snd (getBoards p s) = s"
  by (auto simp: getBoards_def split: option.splits)

lemma postBoard_inv: "storeInv s \<Longrightarrow> storeInv (snd (postBoard body p s))"
  by (rule storeInv_tasks_same [of s])
     (auto simp: postBoard_def boardCreate_def Let_def split: option.splits)

lemma putBoard_inv: "storeInv s \<Longrightarrow> storeInv (snd (putBoard i body p s))"
  by (rule storeInv_tasks_same [of s])
     (auto simp: putBoard_def boardUpdate_def split: option.splits)

lemma boardDelete_inv: "storeInv s \<Longrightarrow> storeInv (boardDelete i s)"
  using storeInv_tasks_kept [of s "boardDelete i s" "\<lambda>t. boardId t \<noteq> i"]
  by (simp add: boardDelete_def)

lemma deleteBoard_inv: "storeInv s \<Longrightarrow> storeInv (snd (deleteBoard i p s))"
  by (auto simp: deleteBoard_def boardDelete_inv split: option.splits)

lemma getTasks_same: "snd (getTasks i p s) = s"
  by (auto simp: getTasks_def split: option.splits)

lemma taskDelete_inv: "storeInv s \<Longrightarrow> storeInv (taskDelete j s)"
  using storeInv_tasks_kept [of s "taskDelete j s" "\<lambda>t. tid t \<noteq> j"]
  by (simp add: taskDelete_def)

lemma deleteTask_inv: "storeInv s \<Longrightarrow> storeInv (snd (deleteTask j p s))"
  by (auto simp: deleteTask_def taskDelete_inv split: option.splits)

lemma postTask_inv_snd: "storeInv s \<Longrightarrow> storeInv (snd (postTask e i body p s))"
  using postTask_inv [of s e i body p "fst (postTask e i body p s)" "snd (postTask e i body p s)"]
  by simp

lemma putTask_inv_snd: "storeInv s \<Longrightarrow> storeInv (snd (putTask e j body p s))"
  using putTask_inv [of s e j body p "fst (putTask e j body p s)" "snd (putTask e j body p s)"]
  by simp

lemma authenticateToken_cases:
  assumes "authenticateToken e h next s = (r, s')"
  shows "(s' = s \<and> code r \<in> {401, 403}) \<or> (\<exists>p. next p s = (r, s'))"
  using assms by (auto simp: authenticateToken_def split: option.splits)

lemma authenticateToken_inv:
  assumes "storeInv s" "\<And>p. storeInv (snd (next p s))"
  shows "storeInv (snd (authenticateToken e h next s))"
  using assms by (auto simp: authenticateToken_def split: option.splits)

lemma handle_inv: "storeInv s \<Longrightarrow> storeInv (snd (handle e rq s))"
  by (cases rq)
     (simp_all add: signup_inv login_same googleCallback_inv getBoards_same postBoard_inv
        putBoard_inv deleteBoard_inv getTasks_same deleteTask_inv postTask_inv_snd
        putTask_inv_snd authenticateToken_inv)

lemma emptyStore_inv: "storeInv emptyStore"
  by (simp add: storeInv_def emptyStore_def)

lemma reachable_inv: "reachable e s \<Longrightarrow> storeInv s"
  by (induction rule: reachable.induct) (simp_all add: emptyStore_inv handle_inv)

text \<open>
  C1. In every store the server can reach, a task create answered 201 and a task update
  answered 200 return a stored task whose progress is an integer within 0..100, is 0 when
  the status is "todo" and 100 when it is "done"; the same holds of every task in that store.
\<close>

theorem C1_progress_policy_on_write:
  assumes "reachable e s"
    and "rq = PostTask h i body \<or> rq = PutTask h i body"
    and "handle e rq s = (r, s')" and "code r = 200 \<or> code r = 201"
  shows "(\<exists>t. content r = TaskJson t \<and> t \<in> set (tasks s') \<and> taskInv t)
       \<and> (\<forall>t\<in>set (tasks s'). taskInv t)"
proof -
  have inv: "storeInv s" by (rule reachable_inv [OF assms(1)])
  have all: "\<forall>t\<in>set (tasks s'). taskInv t"
    using handle_inv [OF inv, of e rq] assms(3) by (simp add: storeInv_def list_all_iff)
  from assms(2) have "\<exists>t. content r = TaskJson t \<and> t \<in> set (tasks s') \<and> taskInv t"
  proof
    assume rq: "rq = PostTask h i body"
    then obtain p where p: "postTask e i body p s = (r, s')"
      using assms(3,4) authenticateToken_cases [of e h "postTask e i body" s r s'] by auto
    have "code r = 201" using postTask_cases [OF p] assms(4) by auto
    then show ?thesis using postTask_inv [OF inv p] by simp
  next
    assume rq: "rq = PutTask h i body"
    then obtain p where p: "putTask e i body p s = (r, s')"
      using assms(3,4) authenticateToken_cases [of e h "putTask e i body" s r s'] by auto
    have "code r = 200" using putTask_cases [OF p] assms(4) by (auto simp: Let_def)
    then show ?thesis using putTask_inv [OF inv p] by simp
  qed
  then show ?thesis using all by simp
qed

lemma ex_done_run:
  "handle exampleEnv (PutTask annHeader 5 (emptyBody\<lparr>reqStatus := Some (JStr ''done'')\<rparr>)) exampleStore
   = (Response 200 (TaskJson (milk\<lparr>status := ''done'', progress := 100\<rparr>)),
      exampleStore\<lparr>tasks := [milk\<lparr>status := ''done'', progress := 100\<rparr>]\<rparr>)"
  by code_simp

theorem C1_progress_policy_on_write_witness:
  "reachable exampleEnv exampleStore
   \<and> handle exampleEnv (PutTask annHeader 5 (emptyBody\<lparr>reqStatus := Some (JStr ''done'')\<rparr>)) exampleStore
     = (Response 200 (TaskJson (milk\<lparr>status := ''done'', progress := 100\<rparr>)),
        exampleStore\<lparr>tasks := [milk\<lparr>status := ''done'', progress := 100\<rparr>]\<rparr>)
   \<and> taskInv (milk\<lparr>status := ''done'', progress := 100\<rparr>)"
  using C1_progress_policy_on_write [OF exampleStore_reachable _ ex_done_run, of annHeader 5
      "emptyBody\<lparr>reqStatus := Some (JStr ''done'')\<rparr>"]
    exampleStore_reachable ex_done_run
  by simp

section \<open>Signing up and logging in\<close>



text \<open>
  C7. A login for a user whose password hash is the empty string is answered 401 whatever
  password is supplied and whatever the password comparison would say; the store is left
  as it was. (A request without a password never gets this far: it is answered 400.)
\<close>

theorem C7_login_rejects_empty_hash:
  assumes "reqEmail body = Some em" "em \<noteq> []" "reqPassword body = Some pw" "pw \<noteq> []"
    and "findUserByEmail s em = Some u" "passwordHash u = []"
  shows "code (fst (login e body s)) = 401 \<and> snd (login e body s) = s"
  using assms by (simp add: login_def)

theorem C7_login_rejects_empty_hash_witness:
  "findUserByEmail exampleStore ''gil@x.io''
     = Some \<lparr>uid = 3, email = ''gil@x.io'', passwordHash = [], googleId = Some ''g-77''\<rparr>
   \<and> strongPassword ''Abcdefg1''
   \<and> code (fst (login (exampleEnv\<lparr>bcryptCompare := \<lambda>pw h. True\<rparr>)
                  \<lparr>reqEmail = Some ''gil@x.io'', reqPassword = Some ''Abcdefg1''\<rparr> exampleStore)) = 401"
proof -
  have gil: "findUserByEmail exampleStore ''gil@x.io''
     = Some \<lparr>uid = 3, email = ''gil@x.io'', passwordHash = [], googleId = Some ''g-77''\<rparr>"
    by code_simp
  have strong: "strongPassword ''Abcdefg1''" by code_simp
  show ?thesis
    using C7_login_rejects_empty_hash [of "\<lparr>reqEmail = Some ''gil@x.io'', reqPassword = Some ''Abcdefg1''\<rparr>"
        "''gil@x.io''" "''Abcdefg1''" exampleStore _ "exampleEnv\<lparr>bcryptCompare := \<lambda>pw h. True\<rparr>", OF _ _ _ _ gil]
      gil strong
    by simp
qed

section \<open>The bearer-token middleware\<close>

text \<open>
  The middleware finds no token exactly when the request has no \<^verbatim>\<open>Authorization\<close> header or
  the header is a single word. (An empty header value counts as the empty token, which goes
  on to verification.)
\<close>

lemma splitOn_nonempty: "splitOn c s \<noteq> []"
  by (induction s) (auto split: list.splits)

lemma splitOn_single: "(\<exists>y. splitOn c s = [y]) \<longleftrightarrow> c \<notin> set s"
proof (induction s)
  case Nil
  then show ?case by simp
next
  case (Cons x xs)
  then show ?case
    using splitOn_nonempty [of c xs] by (cases "splitOn c xs") (auto split: list.splits)
qed

lemma bearerToken_None_iff:
  "bearerToken h = None \<longleftrightarrow> (h = None \<or> (\<exists>x. h = Some x \<and> x \<noteq> [] \<and> CHR '' '' \<notin> set x))"
proof (cases h)
  case None
  then show ?thesis by (simp add: bearerToken_def)
next
  case (Some x)
  show ?thesis
  proof (cases "splitOn CHR '' '' x")
    case Nil
    then show ?thesis using splitOn_nonempty [of "CHR '' ''" x] by simp
  next
    case (Cons y ys)
    then show ?thesis
      using Some splitOn_single [of "CHR '' ''" x]
      by (cases ys) (auto simp: bearerToken_def)
  qed
qed

text \<open>
  C8. On a route behind the middleware, a request without a token is answered 401, and a
  request whose token fails verification (bad signature, expired) is answered 403. In both
  cases the answer is the same whatever handler stands behind the middleware, and the store
  is left as it was.
\<close>

theorem C8_bearer_token_check:
  "(bearerToken h = None \<longrightarrow>
      authenticateToken e h next s = (Response 401 (StatusText ''Unauthorized''), s))
   \<and> (\<forall>tok. bearerToken h = Some tok \<and> jwtVerify e tok = None \<longrightarrow>
      authenticateToken e h next s = (Response 403 (StatusText ''Forbidden''), s))
   \<and> (authorization rq = Some h \<and> bearerToken h = None \<longrightarrow>
      handle e rq s = (Response 401 (StatusText ''Unauthorized''), s))
   \<and> (\<forall>tok. authorization rq = Some h \<and> bearerToken h = Some tok \<and> jwtVerify e tok = None \<longrightarrow>
      handle e rq s = (Response 403 (StatusText ''Forbidden''), s))"
  by (cases rq) (simp_all add: authenticateToken_def)

lemma ex_tokens:
  "bearerToken None = None" "bearerToken (Some ''Bearer'') = None"
  "bearerToken (Some ''Bearer forged'') = Some ''forged''"
  "jwtVerify exampleEnv ''forged'' = None"
  by code_simp+

theorem C8_bearer_token_check_witness:
  "authorization (DeleteBoard None 4) = Some None \<and> bearerToken None = None
   \<and> handle exampleEnv (DeleteBoard None 4) exampleStore
     = (Response 401 (StatusText ''Unauthorized''), exampleStore)
   \<and> bearerToken (Some ''Bearer forged'') = Some ''forged'' \<and> jwtVerify exampleEnv ''forged'' = None
   \<and> handle exampleEnv (DeleteBoard (Some ''Bearer forged'') 4) exampleStore
     = (Response 403 (StatusText ''Forbidden''), exampleStore)"
  using C8_bearer_token_check [of None exampleEnv "deleteBoard 4" exampleStore "DeleteBoard None 4"]
    C8_bearer_token_check [of "Some ''Bearer forged''" exampleEnv "deleteBoard 4" exampleStore
      "DeleteBoard (Some ''Bearer forged'') 4"]
    ex_tokens
  by simp

section \<open>Deleting a board\<close>

text \<open>
  C9. After a board deletion answered 204, the store holds no task of that board; the
  tasks of the other boards are all still there.
\<close>

theorem C9_board_delete_cascades:
  assumes "handle e (DeleteBoard h i) s = (r, s')" "code r = 204"
  shows "(\<forall>t\<in>set (tasks s'). boardId t \<noteq> i) \<and> tasksOfBoard s' i = [] \<and> findBoard s' i = None
       \<and> tasks s' = filter (\<lambda>t. boardId t \<noteq> i) (tasks s)"
proof -
  obtain p where "deleteBoard i p s = (r, s')"
    using assms authenticateToken_cases [of e h "deleteBoard i" s r s'] by auto
  then have "s' = boardDelete i s"
    using assms(2) by (auto simp: deleteBoard_def split: option.splits if_splits)
  then show ?thesis
    by (auto simp: boardDelete_def tasksOfBoard_def findBoard_def find_None_iff filter_empty_conv)
qed

lemma deleteBoard_owner:
  assumes "payloadUserId p = Some u" "findBoard s i = Some b" "userId b = u"
  shows "deleteBoard i p s = (Response 204 NoContent, boardDelete i s)"
  using assms by (simp add: deleteBoard_def)

lemma ex_delete_run:
  "handle exampleEnv (DeleteBoard annHeader 4) exampleStore
   = (Response 204 NoContent, exampleStore\<lparr>boards := [], tasks := []\<rparr>)"
  by code_simp

theorem C9_board_delete_cascades_witness:
  "tasksOfBoard exampleStore 4 = [milk]
   \<and> handle exampleEnv (DeleteBoard annHeader 4) exampleStore
     = (Response 204 NoContent, exampleStore\<lparr>boards := [], tasks := []\<rparr>)
   \<and> tasksOfBoard (exampleStore\<lparr>boards := [], tasks := []\<rparr>) 4 = []"
proof -
  have "tasksOfBoard exampleStore 4 = [milk]" by code_simp
  then show ?thesis
    using C9_board_delete_cascades [OF ex_delete_run] ex_delete_run by simp
qed

section \<open>Invalid progress on update and on create\<close>


text \<open>A number printed in exponent form is read up to the point: \<open>10^21\<close> parses as 1.\<close>

lemma parseInt_exponent_form:
  "toString (JNum (Number False 1 21)) = ''1e+21''" "parseInt (JNum (Number False 1 21)) = Some 1"
  "validProgress (JNum (Number False 1 21))"
  by code_simp+












section \<open>Progress sent without a status\<close>





section \<open>Requests for boards and tasks of other users\<close>

subsection \<open>The checks made on the body before the store is read\<close>





subsection \<open>What each route answers to a requester who is not the owner\<close>










subsection \<open>Isolation between users\<close>




end
